theory Spec2Isabelle
  imports Complex_Main "HOL-Library.Log_Nat"
begin

section \<open>JavaScript Number values\<close>

text \<open>
  Every numeric quantity of \<^verbatim>\<open>cybermodel.js\<close> (pointer coordinates, rotation angles,
  camera parameters) is a JavaScript Number: an IEEE 754 binary64 value. A value is
  \<open>NaN\<close>, an infinity, a signed zero, or a finite non-zero rational; the flag of
  \<open>Inf\<close> and \<open>Zero\<close> is \<open>True\<close> for the negative one. The operators \<^verbatim>\<open>+ - * /\<close>
  compute the exact result and round it to the nearest representable value, ties to the
  even significand (ECMAScript \<^verbatim>\<open>Number::add\<close>, \<^verbatim>\<open>Number::multiply\<close>, ...).
\<close>

datatype number = NaN | Inf bool | Zero bool | Fin rat

text \<open>\<open>ilog2 q\<close> is \<open>\<lfloor>log\<^sub>2 q\<rfloor>\<close> for a positive rational, computed on bit lengths.\<close>

definition ilog2 :: "rat \<Rightarrow> int" where
  "ilog2 q = (if 1 \<le> q then int (floorlog 2 (nat \<lfloor>q\<rfloor>)) - 1
              else - int (floorlog 2 (nat \<lceil>1 / q\<rceil> - 1)))"

definition roundTiesToEven :: "rat \<Rightarrow> int" where
  "roundTiesToEven q =
     (let f = \<lfloor>q\<rfloor>; r = q - of_int f
      in if r < 1 / 2 then f else if 1 / 2 < r then f + 1 else if even f then f else f + 1)"

text \<open>
  Rounding of an exact non-zero result \<open>q\<close> to \<open>m * 2\<^sup>e\<close>: 53 significant bits, the
  unit in the last place \<open>2\<^sup>e\<close> never below \<open>2\<^sup>-\<^sup>1\<^sup>0\<^sup>7\<^sup>4\<close> (subnormals). The largest finite
  Number is \<open>(2\<^sup>5\<^sup>3 - 1) * 2\<^sup>9\<^sup>7\<^sup>1\<close>: a rounded value beyond it is an infinity, and a
  rounded value of zero is the zero of the result's sign.
\<close>

definition rnd :: "rat \<Rightarrow> number" where
  "rnd q =
     (let a = \<bar>q\<bar>;
          e = max (ilog2 a - 52) (- 1074);
          m = roundTiesToEven (a / 2 powi e);
          v = of_int m * 2 powi e
      in if 971 < e \<or> (e = 971 \<and> 2 ^ 53 \<le> m) then Inf (q < 0)
         else if m = 0 then Zero (q < 0)
         else Fin (if q < 0 then - v else v))"

text \<open>A numeric literal of the source denotes the Number nearest to its decimal value.\<close>

definition lit :: "rat \<Rightarrow> number" where
  "lit q = (if q = 0 then Zero False else rnd q)"

fun negative :: "number \<Rightarrow> bool" where
  "negative NaN = False"
| "negative (Inf s) = s"
| "negative (Zero s) = s"
| "negative (Fin q) = (q < 0)"

fun js_neg :: "number \<Rightarrow> number" where
  "js_neg NaN = NaN"
| "js_neg (Inf s) = Inf (\<not> s)"
| "js_neg (Zero s) = Zero (\<not> s)"
| "js_neg (Fin q) = Fin (- q)"

fun js_add :: "number \<Rightarrow> number \<Rightarrow> number" where
  "js_add NaN b = NaN"
| "js_add a NaN = NaN"
| "js_add (Inf s) (Inf t) = (if s = t then Inf s else NaN)"
| "js_add (Inf s) b = Inf s"
| "js_add a (Inf t) = Inf t"
| "js_add (Zero s) (Zero t) = Zero (s \<and> t)"
| "js_add (Zero s) (Fin q) = Fin q"
| "js_add (Fin p) (Zero t) = Fin p"
| "js_add (Fin p) (Fin q) = (if p + q = 0 then Zero False else rnd (p + q))"

definition js_sub :: "number \<Rightarrow> number \<Rightarrow> number" where
  "js_sub a b = js_add a (js_neg b)"

fun js_mul :: "number \<Rightarrow> number \<Rightarrow> number" where
  "js_mul NaN b = NaN"
| "js_mul a NaN = NaN"
| "js_mul (Inf s) (Zero t) = NaN"
| "js_mul (Zero s) (Inf t) = NaN"
| "js_mul (Inf s) b = Inf (s \<noteq> negative b)"
| "js_mul a (Inf t) = Inf (negative a \<noteq> t)"
| "js_mul (Zero s) b = Zero (s \<noteq> negative b)"
| "js_mul a (Zero t) = Zero (negative a \<noteq> t)"
| "js_mul (Fin p) (Fin q) = rnd (p * q)"

fun js_div :: "number \<Rightarrow> number \<Rightarrow> number" where
  "js_div NaN b = NaN"
| "js_div a NaN = NaN"
| "js_div (Inf s) (Inf t) = NaN"
| "js_div (Zero s) (Zero t) = NaN"
| "js_div (Inf s) b = Inf (s \<noteq> negative b)"
| "js_div a (Inf t) = Zero (negative a \<noteq> t)"
| "js_div (Zero s) b = Zero (s \<noteq> negative b)"
| "js_div a (Zero t) = Inf (negative a \<noteq> t)"
| "js_div (Fin p) (Fin q) = rnd (p / q)"

fun Math_abs :: "number \<Rightarrow> number" where
  "Math_abs NaN = NaN"
| "Math_abs (Inf s) = Inf False"
| "Math_abs (Zero s) = Zero False"
| "Math_abs (Fin q) = Fin \<bar>q\<bar>"

text \<open>The relation \<^verbatim>\<open><\<close> on Numbers: false on \<open>NaN\<close>, and the two zeros are equal.\<close>

fun js_less :: "number \<Rightarrow> number \<Rightarrow> bool" where
  "js_less NaN b = False"
| "js_less a NaN = False"
| "js_less (Inf s) (Inf t) = (s \<and> \<not> t)"
| "js_less (Inf s) b = s"
| "js_less a (Inf t) = (\<not> t)"
| "js_less (Zero s) (Zero t) = False"
| "js_less (Zero s) (Fin q) = (0 < q)"
| "js_less (Fin p) (Zero t) = (p < 0)"
| "js_less (Fin p) (Fin q) = (p < q)"

text \<open>
  \<^verbatim>\<open>Math.max\<close> folds its arguments from \<open>-\<infinity>\<close>: \<open>NaN\<close> is contagious and \<open>+0\<close>
  counts as larger than \<open>-0\<close>.
\<close>

definition max_step :: "number \<Rightarrow> number \<Rightarrow> number" where
  "max_step highest n =
     (if highest = NaN \<or> n = NaN then NaN
      else if n = Zero False \<and> highest = Zero True then Zero False
      else if js_less highest n then n else highest)"

definition Math_max :: "number \<Rightarrow> number \<Rightarrow> number \<Rightarrow> number" where
  "Math_max a b c = max_step (max_step (max_step (Inf True) a) b) c"

definition Math_PI :: number where
  "Math_PI = Fin (884279719003555 / 2 ^ 48)"

section \<open>The data of the viewer\<close>

text \<open>
  The objects of the rendering library that the viewer holds, reduced to the fields the
  script reads or writes. An \<open>object3d\<close> is the loaded scene-graph node \<^verbatim>\<open>gltf.scene\<close>:
  its Euler rotation, and the node itself with all its descendants in traversal order
  (what \<^verbatim>\<open>traverse\<close> visits). \<open>SceneModel\<close> in the scene's children is the reference to
  \<^verbatim>\<open>this.model\<close>: the scene and the viewer share that one object.
\<close>

record vector3 =
  vec_x :: number
  vec_y :: number
  vec_z :: number

record euler =
  rot_x :: number
  rot_y :: number
  rot_z :: number

record material =
  metalness :: number
  roughness :: number

record node =
  isMesh :: bool
  material :: "material option"
  castShadow :: bool
  receiveShadow :: bool

record object3d =
  rotation :: euler
  nodes :: "node list"

datatype scene_child =
  AmbientLight nat number
| DirectionalLight nat number vector3
| SceneModel

record camera =
  fov :: number
  aspect :: number
  near :: number
  far :: number
  position :: vector3
  lookAt :: "vector3 option"

record renderer =
  canvas_width :: number
  canvas_height :: number

record indicator =
  display :: string
  textContent :: string

record point =
  pos_x :: number
  pos_y :: number

record rect =
  width :: number
  height :: number

record viewer =
  loadingIndicator :: indicator
  isAutoRotating :: bool
  isDragging :: bool
  previousPosition :: point
  scene :: "scene_child list"
  camera :: camera
  renderer :: renderer
  model :: "object3d option"

text \<open>A mouse event, or one entry of a touch event's \<^verbatim>\<open>touches\<close>.\<close>

record pointer =
  clientX :: number
  clientY :: number

text \<open>
  What the script takes from outside: \<^verbatim>\<open>Math.tan\<close> (an implementation-approximated
  function) and the world-space bounding box that \<^verbatim>\<open>Box3.setFromObject\<close> computes from
  the model's geometry under its current rotation, read through \<^verbatim>\<open>getCenter\<close> and
  \<^verbatim>\<open>getSize\<close>.
\<close>

record three =
  Math_tan :: "number \<Rightarrow> number"
  Box3_getCenter :: "object3d \<Rightarrow> vector3"
  Box3_getSize :: "object3d \<Rightarrow> vector3"

text \<open>
  A handler either returns (\<open>Inr\<close>) or throws (\<open>Inl\<close>). A thrown error is caught by
  nothing in the script; the fields assigned before the throw keep their new values, so
  the error carries the viewer as it was left.
\<close>

datatype js_error = TypeError

type_synonym result = "(js_error \<times> viewer) + viewer"

fun state_of :: "result \<Rightarrow> viewer" where
  "state_of (Inl (err, s)) = s"
| "state_of (Inr s) = s"

section \<open>The methods of \<^verbatim>\<open>CybermodelViewer\<close>\<close>

text \<open>
  Each method is a function on the viewer, in the order of the source. \<^verbatim>\<open>destroy\<close> is
  called by nothing in the script and is left out. \<^verbatim>\<open>updateRendererSize\<close> takes the
  container's rectangle as its argument; the projection matrix it has the camera
  recompute is a function of \<open>fov\<close>, \<open>aspect\<close>, \<open>near\<close> and \<open>far\<close> and is not kept as a
  field.
\<close>

definition updateRendererSize :: "rect \<Rightarrow> viewer \<Rightarrow> viewer" where
  "updateRendererSize r s =
     s\<lparr>renderer := (renderer s)\<lparr>canvas_width := width r, canvas_height := height r\<rparr>,
       camera := (camera s)\<lparr>aspect := js_div (width r) (height r)\<rparr>\<rparr>"

definition addLights :: "viewer \<Rightarrow> viewer" where
  "addLights s =
     s\<lparr>scene := scene s @
         [AmbientLight 16777215 (lit (5 / 10)),
          DirectionalLight 16777215 (lit (8 / 10))
            \<lparr>vec_x = lit 5, vec_y = lit 10, vec_z = lit 5\<rparr>]\<rparr>"

text \<open>
  The constructor's field initialisations and \<^verbatim>\<open>initScene\<close>: an empty scene, a
  perspective camera of 45 degrees at the origin, and a new renderer (a canvas is 300 by
  150 until it is sized), which \<^verbatim>\<open>updateRendererSize\<close> sizes to the container before the
  lights are added.
\<close>

definition initScene :: "rect \<Rightarrow> indicator \<Rightarrow> viewer" where
  "initScene r ind =
     addLights (updateRendererSize r
       \<lparr>loadingIndicator = ind,
        isAutoRotating = False,
        isDragging = False,
        previousPosition = \<lparr>pos_x = lit 0, pos_y = lit 0\<rparr>,
        scene = [],
        camera = \<lparr>fov = lit 45, aspect = js_div (width r) (height r),
                   near = lit (1 / 10), far = lit 1000,
                   position = \<lparr>vec_x = lit 0, vec_y = lit 0, vec_z = lit 0\<rparr>,
                   lookAt = None\<rparr>,
        renderer = \<lparr>canvas_width = lit 300, canvas_height = lit 150\<rparr>,
        model = None\<rparr>)"

text \<open>\<^verbatim>\<open>loadModel\<close> shows the indicator and starts the load; its two callbacks follow.\<close>

definition loadModel :: "viewer \<Rightarrow> viewer" where
  "loadModel s = s\<lparr>loadingIndicator := (loadingIndicator s)\<lparr>display := ''block''\<rparr>\<rparr>"

definition constructor :: "rect \<Rightarrow> indicator \<Rightarrow> viewer" where
  "constructor r ind = loadModel (initScene r ind)"

definition optimizeChild :: "node \<Rightarrow> node" where
  "optimizeChild child =
     (if isMesh child
      then (case material child of
              Some mat \<Rightarrow>
                child\<lparr>material := Some (mat\<lparr>metalness := lit (9 / 10), roughness := lit (3 / 10)\<rparr>),
                      castShadow := True, receiveShadow := True\<rparr>
            | None \<Rightarrow> child)
      else child)"

definition optimizeModel :: "viewer \<Rightarrow> result" where
  "optimizeModel s =
     (case model s of
        None \<Rightarrow> Inl (TypeError, s)
      | Some m \<Rightarrow> Inr (s\<lparr>model := Some (m\<lparr>nodes := map optimizeChild (nodes m)\<rparr>)\<rparr>))"

text \<open>
  \<^verbatim>\<open>fitModelToContainer\<close>: \<^verbatim>\<open>setFromObject\<close> dereferences its argument, so an
  undefined model throws before anything is written.
\<close>

definition fitModelToContainer :: "three \<Rightarrow> viewer \<Rightarrow> result" where
  "fitModelToContainer L s =
     (case model s of
        None \<Rightarrow> Inl (TypeError, s)
      | Some m \<Rightarrow>
          let center = Box3_getCenter L m;
              size = Box3_getSize L m;
              maxDim = Math_max (vec_x size) (vec_y size) (vec_z size);
              fovRad = js_mul (fov (camera s)) (js_div Math_PI (lit 180));
              cameraZ = Math_abs (js_div maxDim (js_mul (lit 2) (Math_tan L (js_div fovRad (lit 2)))))
          in Inr (s\<lparr>camera := (camera s)
                    \<lparr>position := \<lparr>vec_x = lit 0,
                                  vec_y = js_mul (vec_y size) (lit (3 / 10)),
                                  vec_z = js_mul cameraZ (lit (18 / 10))\<rparr>,
                     lookAt := Some center\<rparr>\<rparr>))"

text \<open>The completion callback of the load.\<close>

definition onLoad :: "three \<Rightarrow> object3d \<Rightarrow> viewer \<Rightarrow> result" where
  "onLoad L gltf_scene s =
     (case optimizeModel (s\<lparr>model := Some gltf_scene\<rparr>) of
        Inl err \<Rightarrow> Inl err
      | Inr s1 \<Rightarrow>
          (case fitModelToContainer L (s1\<lparr>scene := scene s1 @ [SceneModel]\<rparr>) of
             Inl err \<Rightarrow> Inl err
           | Inr s2 \<Rightarrow> Inr (s2\<lparr>loadingIndicator := (loadingIndicator s2)\<lparr>display := ''none''\<rparr>\<rparr>)))"

text \<open>
  The error callback: one \<^verbatim>\<open>console.error\<close> line (its two arguments), and the
  indicator's text.
\<close>

definition onError :: "string \<Rightarrow> viewer \<Rightarrow> (string \<times> string) list \<times> result" where
  "onError err s =
     ([(''Error loading model:'', err)],
      Inr (s\<lparr>loadingIndicator := (loadingIndicator s)\<lparr>textContent := ''Error loading model''\<rparr>\<rparr>))"

text \<open>The two click handlers that \<^verbatim>\<open>setupControls\<close> registers.\<close>

definition resetViewClick :: "three \<Rightarrow> viewer \<Rightarrow> result" where
  "resetViewClick L s =
     (case fitModelToContainer L s of
        Inl err \<Rightarrow> Inl err
      | Inr s1 \<Rightarrow>
          (case model s1 of
             None \<Rightarrow> Inl (TypeError, s1)
           | Some m \<Rightarrow>
               Inr (s1\<lparr>model := Some (m\<lparr>rotation :=
                      \<lparr>rot_x = lit 0, rot_y = lit 0, rot_z = lit 0\<rparr>\<rparr>)\<rparr>)))"

definition toggleRotationClick :: "viewer \<Rightarrow> result" where
  "toggleRotationClick s = Inr (s\<lparr>isAutoRotating := \<not> isAutoRotating s\<rparr>)"

subsection \<open>Event handlers\<close>

definition onMouseDown :: "pointer \<Rightarrow> viewer \<Rightarrow> result" where
  "onMouseDown e s =
     Inr (s\<lparr>isDragging := True,
            previousPosition := \<lparr>pos_x = clientX e, pos_y = clientY e\<rparr>\<rparr>)"

definition handleRotation :: "number \<Rightarrow> number \<Rightarrow> viewer \<Rightarrow> result" where
  "handleRotation cx cy s =
     (let deltaX = js_sub cx (pos_x (previousPosition s));
          deltaY = js_sub cy (pos_y (previousPosition s))
      in case model s of
           None \<Rightarrow> Inl (TypeError, s)
         | Some m \<Rightarrow>
             let r = rotation m;
                 r1 = r\<lparr>rot_y := js_add (rot_y r) (js_mul deltaX (lit (5 / 1000)))\<rparr>;
                 r2 = r1\<lparr>rot_x := js_add (rot_x r1) (js_mul deltaY (lit (5 / 1000)))\<rparr>
             in Inr (s\<lparr>model := Some (m\<lparr>rotation := r2\<rparr>),
                       previousPosition := \<lparr>pos_x = cx, pos_y = cy\<rparr>\<rparr>))"

definition onMouseMove :: "pointer \<Rightarrow> viewer \<Rightarrow> result" where
  "onMouseMove e s =
     (if \<not> isDragging s then Inr s else handleRotation (clientX e) (clientY e) s)"

definition onMouseUp :: "viewer \<Rightarrow> result" where
  "onMouseUp s = Inr (s\<lparr>isDragging := False\<rparr>)"

text \<open>
  \<^verbatim>\<open>e.touches[0]\<close> is undefined on an empty touch list, and reading \<^verbatim>\<open>clientX\<close> from
  it throws; in \<^verbatim>\<open>onTouchStart\<close> the drag flag is already set by then.
\<close>

definition onTouchStart :: "pointer list \<Rightarrow> viewer \<Rightarrow> result" where
  "onTouchStart touches s =
     (let s1 = s\<lparr>isDragging := True\<rparr>
      in case touches of
           [] \<Rightarrow> Inl (TypeError, s1)
         | t # ts \<Rightarrow> Inr (s1\<lparr>previousPosition := \<lparr>pos_x = clientX t, pos_y = clientY t\<rparr>\<rparr>))"

definition onTouchMove :: "pointer list \<Rightarrow> viewer \<Rightarrow> result" where
  "onTouchMove touches s =
     (if \<not> isDragging s then Inr s
      else case touches of
             [] \<Rightarrow> Inl (TypeError, s)
           | t # ts \<Rightarrow> handleRotation (clientX t) (clientY t) s)"

definition onTouchEnd :: "viewer \<Rightarrow> result" where
  "onTouchEnd s = Inr (s\<lparr>isDragging := False\<rparr>)"

text \<open>The resize handler reads the container's rectangle, here its argument.\<close>

definition onWindowResize :: "three \<Rightarrow> rect \<Rightarrow> viewer \<Rightarrow> result" where
  "onWindowResize L r s = fitModelToContainer L (updateRendererSize r s)"

text \<open>
  One animation frame. Requesting the next frame and drawing the scene assign no field
  of the viewer; the draw is not reached when the rotation throws.
\<close>

definition animate :: "viewer \<Rightarrow> result" where
  "animate s =
     (if isAutoRotating s
      then (case model s of
              None \<Rightarrow> Inl (TypeError, s)
            | Some m \<Rightarrow>
                Inr (s\<lparr>model := Some (m\<lparr>rotation :=
                       (rotation m)\<lparr>rot_y := js_add (rot_y (rotation m)) (lit (5 / 1000))\<rparr>\<rparr>)\<rparr>))
      else Inr s)"

subsection \<open>The host's dispatch\<close>

text \<open>
  The events the constructor subscribes to, with the two load callbacks. \<open>handle\<close>
  gives the console lines the handler writes and its result; \<open>run\<close> delivers events
  in turn, every handler starting from the fields the one before left, thrown or not.
\<close>

datatype event =
  MouseDown pointer
| MouseMove pointer
| MouseUp
| TouchStart "pointer list"
| TouchMove "pointer list"
| TouchEnd
| WindowResize rect
| ResetViewClick
| ToggleRotationClick
| AnimationFrame
| ModelLoaded object3d
| ModelLoadError string

fun handle :: "three \<Rightarrow> event \<Rightarrow> viewer \<Rightarrow> (string \<times> string) list \<times> result" where
  "handle L (MouseDown e) s = ([], onMouseDown e s)"
| "handle L (MouseMove e) s = ([], onMouseMove e s)"
| "handle L MouseUp s = ([], onMouseUp s)"
| "handle L (TouchStart ts) s = ([], onTouchStart ts s)"
| "handle L (TouchMove ts) s = ([], onTouchMove ts s)"
| "handle L TouchEnd s = ([], onTouchEnd s)"
| "handle L (WindowResize r) s = ([], onWindowResize L r s)"
| "handle L ResetViewClick s = ([], resetViewClick L s)"
| "handle L ToggleRotationClick s = ([], toggleRotationClick s)"
| "handle L AnimationFrame s = ([], animate s)"
| "handle L (ModelLoaded g) s = ([], onLoad L g s)"
| "handle L (ModelLoadError err) s = onError err s"

fun run :: "three \<Rightarrow> event list \<Rightarrow> viewer \<Rightarrow> viewer" where
  "run L [] s = s"
| "run L (ev # evs) s = run L evs (state_of (snd (handle L ev s)))"

section \<open>A sample page\<close>

text \<open>
  A concrete environment, used where a statement is evaluated: a \<^verbatim>\<open>Math.tan\<close> that
  knows the one argument a 45 degree camera asks for (\<open>tan 0.39269908169872414 =
  0.41421356237309503\<close>), a model of two nodes inside a box of size \<open>(2, 2, 6)\<close>
  centred at \<open>(0, 1, 0)\<close>, and the viewer constructed in a 600 by 300 container once
  that model has loaded.
\<close>

definition demo_three :: three where
  "demo_three =
     \<lparr>Math_tan = (\<lambda>x. if x = Fin (884279719003555 / 2 ^ 51)
                        then Fin (3730904090310553 / 2 ^ 53) else NaN),
      Box3_getCenter = (\<lambda>m. \<lparr>vec_x = Zero False, vec_y = Fin 1, vec_z = Zero False\<rparr>),
      Box3_getSize = (\<lambda>m. \<lparr>vec_x = Fin 2, vec_y = Fin 2, vec_z = Fin 6\<rparr>)\<rparr>"

definition demo_scene :: object3d where
  "demo_scene =
     \<lparr>rotation = \<lparr>rot_x = Zero False, rot_y = Zero False, rot_z = Zero False\<rparr>,
      nodes = [\<lparr>isMesh = False, material = None, castShadow = False, receiveShadow = False\<rparr>,
               \<lparr>isMesh = True, material = Some \<lparr>metalness = Fin 1, roughness = Fin 1\<rparr>,
                castShadow = False, receiveShadow = False\<rparr>]\<rparr>"

definition demo_start :: viewer where
  "demo_start =
     constructor \<lparr>width = Fin 600, height = Fin 300\<rparr>
       \<lparr>display = ''none'', textContent = ''Loading...''\<rparr>"

definition demo_viewer :: viewer where
  "demo_viewer = state_of (snd (handle demo_three (ModelLoaded demo_scene) demo_start))"

text \<open>
  The same environment with a bounding box that follows the rotation: \<open>(2, 2, 6)\<close> about
  \<open>(0, 1, 0)\<close> while all angles are \<open>0\<close>, and \<open>(5, 3, 5)\<close> about \<open>(0, 1.5, 0)\<close> once
  the model is turned.
\<close>

definition demo_turning :: three where
  "demo_turning =
     \<lparr>Math_tan = Math_tan demo_three,
      Box3_getCenter = (\<lambda>m. if rotation m = \<lparr>rot_x = Zero False, rot_y = Zero False, rot_z = Zero False\<rparr>
                            then \<lparr>vec_x = Zero False, vec_y = Fin 1, vec_z = Zero False\<rparr>
                            else \<lparr>vec_x = Zero False, vec_y = Fin (3 / 2), vec_z = Zero False\<rparr>),
      Box3_getSize = (\<lambda>m. if rotation m = \<lparr>rot_x = Zero False, rot_y = Zero False, rot_z = Zero False\<rparr>
                          then \<lparr>vec_x = Fin 2, vec_y = Fin 2, vec_z = Fin 6\<rparr>
                          else \<lparr>vec_x = Fin 5, vec_y = Fin 3, vec_z = Fin 5\<rparr>)\<rparr>"

text \<open>A pointer at whole pixel coordinates.\<close>

definition pointer_at :: "int \<Rightarrow> int \<Rightarrow> pointer" where
  "pointer_at px py = \<lparr>clientX = (if px = 0 then Zero False else Fin (of_int px)),
               clientY = (if py = 0 then Zero False else Fin (of_int py))\<rparr>"

section \<open>Components outside the interaction state\<close>

text \<open>
  Everything a viewer holds besides the drag flag, the last pointer position, the model's
  \<open>x\<close> and \<open>y\<close> angles and the auto-rotate flag; and the part of it that neither the
  reset handler nor the resize handler assigns.
\<close>

definition other_components ::
  "viewer \<Rightarrow> indicator \<times> scene_child list \<times> camera \<times> renderer \<times> (number \<times> node list) option" where
  "other_components s =
     (loadingIndicator s, scene s, camera s, renderer s,
      map_option (\<lambda>m. (rot_z (rotation m), nodes m)) (model s))"

definition fixed_components ::
  "viewer \<Rightarrow> indicator \<times> scene_child list \<times> (number \<times> number \<times> number) \<times> node list option" where
  "fixed_components s =
     (loadingIndicator s, scene s, (fov (camera s), near (camera s), far (camera s)),
      map_option nodes (model s))"

section \<open>Rounding\<close>

text \<open>
  The rounding of the Number operations is what IEEE 754 asks for: \<open>ilog2\<close> is the binary
  exponent, so a finite result lies within half a unit in the last place of the exact
  value, and within the relative error \<open>2\<^sup>-\<^sup>5\<^sup>3\<close> in the normal range.
\<close>

lemma roundTiesToEven_nearest: "\<bar>of_int (roundTiesToEven q) - q\<bar> \<le> 1 / 2"
proof -
  have "of_int \<lfloor>q\<rfloor> \<le> q" "q < of_int \<lfloor>q\<rfloor> + 1"
    by linarith+
  then show ?thesis
    unfolding roundTiesToEven_def Let_def by simp
qed

lemma ilog2_ge1:
  assumes "1 \<le> q"
  shows "2 powi ilog2 q \<le> q" and "q < 2 powi (ilog2 q + 1)"
proof -
  define n where "n = nat \<lfloor>q\<rfloor>"
  define k where "k = floorlog 2 n"
  have n: "0 < n" using assms by (simp add: n_def)
  have b: "2 ^ (k - 1) \<le> n" "n < 2 ^ k"
    using floorlog_bounds [of n 2] n by (simp_all add: k_def)
  have k: "0 < k" using n by (simp add: k_def floorlog_def)
  have il: "ilog2 q = int k - 1"
    using assms by (simp add: ilog2_def n_def k_def)
  have nq: "of_nat n \<le> q" "q < of_nat n + 1"
    using assms unfolding n_def by simp_all linarith
  have "int k - 1 = int (k - 1)"
    using k by simp
  then have p1: "(2::rat) powi (int k - 1) = 2 ^ (k - 1)"
    by (simp only: power_int_of_nat)
  have p2: "(2::rat) powi (int k - 1 + 1) = 2 ^ k"
    by simp
  have c: "(2::rat) ^ (k - 1) \<le> of_nat n"
    using b(1) by simp
  show "2 powi ilog2 q \<le> q"
    unfolding il p1 using c nq(1) by (rule order_trans)
  have "n + 1 \<le> 2 ^ k" using b(2) by simp
  then have "(of_nat (n + 1) :: rat) \<le> of_nat (2 ^ k)"
    by (simp only: of_nat_le_iff)
  then have d: "(of_nat n :: rat) + 1 \<le> 2 ^ k"
    by simp
  show "q < 2 powi (ilog2 q + 1)"
    unfolding il p2 using nq(2) d by (rule less_le_trans)
qed

lemma ilog2_lt1:
  assumes "0 < q" and "q < 1"
  shows "2 powi ilog2 q \<le> q" and "q < 2 powi (ilog2 q + 1)"
proof -
  define c where "c = \<lceil>1 / q\<rceil>"
  define n where "n = nat c - 1"
  define k where "k = floorlog 2 n"
  have r: "1 < 1 / q" using assms by simp
  have c: "2 \<le> c" unfolding c_def using r by linarith
  have cr: "1 / q \<le> of_int c" "of_int c - 1 < 1 / q"
    unfolding c_def by linarith+
  have n: "0 < n" "int n = c - 1" using c by (simp_all add: n_def)
  have b: "2 ^ (k - 1) \<le> n" "n < 2 ^ k"
    using floorlog_bounds [of n 2] n by (simp_all add: k_def)
  have k: "0 < k" using n by (simp add: k_def floorlog_def)
  have il: "ilog2 q = - int k"
    using assms by (simp add: ilog2_def n_def k_def c_def)
  have "n + 1 \<le> 2 ^ k" using b(2) by simp
  then have "int (n + 1) \<le> int (2 ^ k)"
    by (simp only: of_nat_le_iff)
  then have "int n + 1 \<le> 2 ^ k"
    by simp
  then have "c \<le> 2 ^ k" using n by simp
  then have "(of_int c :: rat) \<le> 2 ^ k"
    by simp
  with cr(1) have u: "1 / q \<le> 2 ^ k" by (rule order_trans)
  have "2 powi (- int k) = 1 / (2::rat) ^ k"
    by (simp add: power_int_minus field_simps)
  also have "\<dots> \<le> q"
    using u assms(1) by (simp add: field_simps)
  finally show "2 powi ilog2 q \<le> q"
    by (simp add: il)
  have "(2::int) ^ (k - 1) \<le> int n" using b(1) by simp
  then have "(2::int) ^ (k - 1) \<le> c - 1" using n by simp
  then have "(of_int (2 ^ (k - 1)) :: rat) \<le> of_int (c - 1)"
    by (simp only: of_int_le_iff)
  then have "(2::rat) ^ (k - 1) \<le> of_int c - 1"
    by simp
  then have l: "2 ^ (k - 1) < 1 / q" using cr(2) by (rule le_less_trans)
  have e: "- int k + 1 = - int (k - 1)"
    using k by simp
  have "q < 1 / (2::rat) ^ (k - 1)"
    using l assms(1) by (simp add: field_simps)
  also have "\<dots> = 2 powi (- int k + 1)"
    unfolding e by (simp add: power_int_minus field_simps)
  finally show "q < 2 powi (ilog2 q + 1)"
    by (simp add: il)
qed

lemma ilog2_bounds:
  assumes "0 < q"
  shows "2 powi ilog2 q \<le> q \<and> q < 2 powi (ilog2 q + 1)"
  using assms ilog2_ge1 [of q] ilog2_lt1 [of q] by (cases "1 \<le> q") auto

lemma rnd_error:
  assumes "rnd q = Fin v"
  shows "\<bar>v - q\<bar> \<le> 2 powi (max (ilog2 \<bar>q\<bar> - 52) (- 1074)) / 2"
proof -
  define e where "e = max (ilog2 \<bar>q\<bar> - 52) (- 1074)"
  define m where "m = roundTiesToEven (\<bar>q\<bar> / 2 powi e)"
  have p: "0 < (2::rat) powi e" by simp
  from assms have v: "v = (if q < 0 then - (of_int m * 2 powi e) else of_int m * 2 powi e)"
    unfolding rnd_def Let_def e_def [symmetric] m_def [symmetric] by (auto split: if_splits)
  have "\<bar>of_int m - \<bar>q\<bar> / 2 powi e\<bar> \<le> 1 / 2"
    unfolding m_def by (rule roundTiesToEven_nearest)
  then have "\<bar>of_int m - \<bar>q\<bar> / 2 powi e\<bar> * 2 powi e \<le> 1 / 2 * 2 powi e"
    using p by (intro mult_right_mono) simp_all
  moreover have "\<bar>of_int m - \<bar>q\<bar> / 2 powi e\<bar> * 2 powi e
      = \<bar>(of_int m - \<bar>q\<bar> / 2 powi e) * 2 powi e\<bar>"
    using p by (simp add: abs_mult)
  moreover have "(of_int m - \<bar>q\<bar> / 2 powi e) * 2 powi e = of_int m * 2 powi e - \<bar>q\<bar>"
    using p by (simp add: left_diff_distrib)
  ultimately have "\<bar>of_int m * 2 powi e - \<bar>q\<bar>\<bar> \<le> 2 powi e / 2"
    by simp
  then show ?thesis
    unfolding e_def [symmetric] v by (auto simp: abs_if split: if_splits)
qed


lemma rnd_relative_error:
  assumes "rnd q = Fin v" and "2 powi (- 1022) \<le> \<bar>q\<bar>"
  shows "\<bar>v - q\<bar> \<le> \<bar>q\<bar> / 2 ^ 53"
proof -
  have pos: "0 < \<bar>q\<bar>"
    using assms(2) by (rule less_le_trans [rotated]) simp
  have lt: "(2::rat) powi (- 1022) < 2 powi (ilog2 \<bar>q\<bar> + 1)"
    using assms(2) ilog2_bounds [OF pos] by linarith
  have "- 1022 < ilog2 \<bar>q\<bar> + 1"
  proof (rule ccontr)
    assume "\<not> - 1022 < ilog2 \<bar>q\<bar> + 1"
    then have "ilog2 \<bar>q\<bar> + 1 \<le> - 1022"
      by simp
    then have "(2::rat) powi (ilog2 \<bar>q\<bar> + 1) \<le> 2 powi (- 1022)"
      by (rule power_int_increasing) simp
    with lt show False
      by simp
  qed
  then have e: "max (ilog2 \<bar>q\<bar> - 52) (- 1074) = ilog2 \<bar>q\<bar> - 52"
    by simp
  have "\<bar>v - q\<bar> \<le> 2 powi (ilog2 \<bar>q\<bar> - 52) / 2"
    using rnd_error [OF assms(1)] unfolding e .
  also have "\<dots> = 2 powi ilog2 \<bar>q\<bar> / 2 ^ 53"
    by (simp add: power_int_diff)
  also have "\<dots> \<le> \<bar>q\<bar> / 2 ^ 53"
    using ilog2_bounds [OF pos] by (simp add: divide_right_mono)
  finally show ?thesis .
qed

section \<open>Basic facts\<close>

lemma lit_zero: "lit 0 = Zero False"
  by (simp add: lit_def)

lemma handleRotation_loaded:
  "model s = Some m \<Longrightarrow>
   handleRotation cx cy s =
     Inr (s\<lparr>model := Some (m\<lparr>rotation := (rotation m)
              \<lparr>rot_y := js_add (rot_y (rotation m))
                          (js_mul (js_sub cx (pos_x (previousPosition s))) (lit (5 / 1000))),
               rot_x := js_add (rot_x (rotation m))
                          (js_mul (js_sub cy (pos_y (previousPosition s))) (lit (5 / 1000)))\<rparr>\<rparr>),
           previousPosition := \<lparr>pos_x = cx, pos_y = cy\<rparr>\<rparr>)"
  by (simp add: handleRotation_def Let_def)

lemma handleRotation_unloaded:
  "model s = None \<Longrightarrow> handleRotation cx cy s = Inl (TypeError, s)"
  by (simp add: handleRotation_def Let_def)

lemma fit_loaded:
  "model s = Some m \<Longrightarrow>
   fitModelToContainer L s =
     Inr (s\<lparr>camera := (camera s)
            \<lparr>position :=
               \<lparr>vec_x = Zero False,
                vec_y = js_mul (vec_y (Box3_getSize L m)) (lit (3 / 10)),
                vec_z = js_mul
                  (Math_abs (js_div
                     (Math_max (vec_x (Box3_getSize L m)) (vec_y (Box3_getSize L m))
                        (vec_z (Box3_getSize L m)))
                     (js_mul (lit 2)
                        (Math_tan L (js_div (js_mul (fov (camera s)) (js_div Math_PI (lit 180)))
                                      (lit 2))))))
                  (lit (18 / 10))\<rparr>,
             lookAt := Some (Box3_getCenter L m)\<rparr>\<rparr>)"
  by (simp add: fitModelToContainer_def Let_def lit_zero)

lemma fit_unloaded:
  "model s = None \<Longrightarrow> fitModelToContainer L s = Inl (TypeError, s)"
  by (simp add: fitModelToContainer_def)

lemma fit_state:
  "model s = Some m \<Longrightarrow>
   fitModelToContainer L s = Inr (s\<lparr>camera := camera (state_of (fitModelToContainer L s))\<rparr>)"
  by (simp add: fitModelToContainer_def Let_def)

lemma fit_camera:
  "aspect (camera (state_of (fitModelToContainer L s))) = aspect (camera s)"
  "fov (camera (state_of (fitModelToContainer L s))) = fov (camera s)"
  "near (camera (state_of (fitModelToContainer L s))) = near (camera s)"
  "far (camera (state_of (fitModelToContainer L s))) = far (camera s)"
  by (cases "model s"; simp add: fitModelToContainer_def Let_def)+

lemma fit_keeps:
  "renderer (state_of (fitModelToContainer L s)) = renderer s"
  "model (state_of (fitModelToContainer L s)) = model s"
  "scene (state_of (fitModelToContainer L s)) = scene s"
  "loadingIndicator (state_of (fitModelToContainer L s)) = loadingIndicator s"
  "isDragging (state_of (fitModelToContainer L s)) = isDragging s"
  "previousPosition (state_of (fitModelToContainer L s)) = previousPosition s"
  "isAutoRotating (state_of (fitModelToContainer L s)) = isAutoRotating s"
  by (cases "model s"; simp add: fitModelToContainer_def Let_def)+

lemma constructor_fields:
  "model (constructor r ind) = None"
  "isDragging (constructor r ind) = False"
  "isAutoRotating (constructor r ind) = False"
  "previousPosition (constructor r ind) = \<lparr>pos_x = Zero False, pos_y = Zero False\<rparr>"
  "loadingIndicator (constructor r ind) = ind\<lparr>display := ''block''\<rparr>"
  "renderer (constructor r ind) = \<lparr>canvas_width = width r, canvas_height = height r\<rparr>"
  "aspect (camera (constructor r ind)) = js_div (width r) (height r)"
  "fov (camera (constructor r ind)) = lit 45"
  by (simp_all add: constructor_def loadModel_def initScene_def addLights_def
      updateRendererSize_def lit_zero)

lemma onLoad_result:
  "onLoad L g s =
     Inr (s\<lparr>model := Some (g\<lparr>nodes := map optimizeChild (nodes g)\<rparr>),
           scene := scene s @ [SceneModel],
           camera := camera (state_of (fitModelToContainer L
                       (s\<lparr>model := Some (g\<lparr>nodes := map optimizeChild (nodes g)\<rparr>),
                          scene := scene s @ [SceneModel]\<rparr>))),
           loadingIndicator := (loadingIndicator s)\<lparr>display := ''none''\<rparr>\<rparr>)"
  by (simp add: onLoad_def optimizeModel_def fitModelToContainer_def Let_def)

lemma onLoad_fields:
  "model (state_of (onLoad L g s)) = Some (g\<lparr>nodes := map optimizeChild (nodes g)\<rparr>)"
  "isDragging (state_of (onLoad L g s)) = isDragging s"
  "isAutoRotating (state_of (onLoad L g s)) = isAutoRotating s"
  "previousPosition (state_of (onLoad L g s)) = previousPosition s"
  "renderer (state_of (onLoad L g s)) = renderer s"
  "scene (state_of (onLoad L g s)) = scene s @ [SceneModel]"
  "loadingIndicator (state_of (onLoad L g s)) = (loadingIndicator s)\<lparr>display := ''none''\<rparr>"
  "aspect (camera (state_of (onLoad L g s))) = aspect (camera s)"
  "fov (camera (state_of (onLoad L g s))) = fov (camera s)"
  by (simp_all add: onLoad_result fit_camera)

lemma demo_start_fields:
  "model demo_start = None"
  "isDragging demo_start = False"
  "isAutoRotating demo_start = False"
  "loadingIndicator demo_start = \<lparr>display = ''block'', textContent = ''Loading...''\<rparr>"
  by (simp_all add: demo_start_def constructor_fields)

lemma demo_viewer_fields:
  "model demo_viewer = Some (demo_scene\<lparr>nodes := map optimizeChild (nodes demo_scene)\<rparr>)"
  "isDragging demo_viewer = False"
  "isAutoRotating demo_viewer = False"
  "previousPosition demo_viewer = \<lparr>pos_x = Zero False, pos_y = Zero False\<rparr>"
  "renderer demo_viewer = \<lparr>canvas_width = Fin 600, canvas_height = Fin 300\<rparr>"
  "aspect (camera demo_viewer) = js_div (Fin 600) (Fin 300)"
  "fov (camera demo_viewer) = lit 45"
  "loadingIndicator demo_viewer = \<lparr>display = ''none'', textContent = ''Loading...''\<rparr>"
  by (simp_all add: demo_viewer_def demo_start_def onLoad_fields constructor_fields)

lemma js_mul_commute: "js_mul a b = js_mul b a"
  by (cases a; cases b) (auto simp: mult.commute)

subsection \<open>Arithmetic on the sample page\<close>

text \<open>
  The Numbers of the sample page are representable, and its closed Number expressions
  are evaluated once: \<open>0.005 * 20 = 0.1\<close>,
  \<open>0.1 + 0.005 * 40 = 0.30000000000000004\<close>, \<open>0.005 * 60 = 0.3\<close>, and the camera of
  the sample page at \<open>(0, 0.6, 13.036753236814715)\<close>.
\<close>

lemma demo_numbers:
  "lit 20 = Fin 20"
  "lit 60 = Fin 60"
  "lit 600 = Fin 600"
  "lit (41421356237309503 / 10 ^ 17) = Fin (3730904090310553 / 2 ^ 53)"
  "lit (39269908169872414 / 10 ^ 17) = Fin (884279719003555 / 2 ^ 51)"
  "lit (3141592653589793 / 10 ^ 15) = Math_PI"
  by code_simp+

lemma drag_0_20:
  "js_add (Zero False) (js_mul (js_sub (Fin 20) (Zero False)) (lit (1 / 200)))
     = Fin (3602879701896397 / 36028797018963968)"
  by code_simp

lemma drag_20_60:
  "js_add (Fin (3602879701896397 / 36028797018963968))
     (js_mul (js_sub (Fin 60) (Fin 20)) (lit (1 / 200)))
     = Fin (1351079888211149 / 4503599627370496)"
  by code_simp

lemma drag_0_60:
  "js_add (Zero False) (js_mul (js_sub (Fin 60) (Zero False)) (lit (1 / 200)))
     = Fin (5404319552844595 / 18014398509481984)"
  by code_simp

lemma drag_0_0:
  "js_add (Zero False) (js_mul (js_sub (Zero False) (Zero False)) (lit (1 / 200))) = Zero False"
  by code_simp

lemma claimed_0_60:
  "js_add (Zero False) (js_mul (lit (1 / 200)) (js_sub (Fin 60) (Zero False)))
     = Fin (5404319552844595 / 18014398509481984)"
  by code_simp

lemma move_30_12:
  "js_add (Zero False) (js_mul (lit (1 / 200)) (js_sub (Fin 30) (Zero False)))
     = Fin (5404319552844595 / 36028797018963968)"
  "js_add (Zero False) (js_mul (lit (1 / 200)) (js_sub (Fin 12) (Zero False)))
     = Fin (1080863910568919 / 18014398509481984)"
  by code_simp+

lemma frame_step:
  "js_add (Zero False) (lit (1 / 200)) = Fin (5764607523034235 / 1152921504606846976)"
  by code_simp

lemma demo_framing:
  "js_mul (lit (3 / 10)) (Fin 2) = Fin (5404319552844595 / 9007199254740992)"
  "js_mul (lit (9 / 5))
     (Math_abs (js_div (Math_max (Fin 2) (Fin 2) (Fin 6))
        (js_mul (lit 2) (Math_tan demo_three
           (js_div (js_mul (lit 45) (js_div Math_PI (lit 180))) (lit 2))))))
   = Fin (3669519813714991 / 281474976710656)"
  by code_simp+

lemma demo_turned_framing:
  "js_mul (lit (3 / 10)) (Fin 3) = Fin (2026619832316723 / 2251799813685248)"
  "js_mul (lit (9 / 5))
     (Math_abs (js_div (Math_max (Fin 5) (Fin 3) (Fin 5))
        (js_mul (lit 2) (Math_tan demo_three
           (js_div (js_mul (lit 45) (js_div Math_PI (lit 180))) (lit 2))))))
   = Fin (6115866356191651 / 562949953421312)"
  by code_simp+

lemma demo_aspect:
  "rnd 2 = Fin 2"
  "rnd 1 = Fin 1"
  by code_simp+

section \<open>The load-failure path\<close>



text \<open>
  C8. The error callback assigns the indicator's text and nothing else: the viewer it
  leaves is the viewer it found with that one field replaced, so the indicator's display,
  the scene, the camera, the renderer, the model reference with its angles, the drag flag,
  the previous position and the auto-rotate flag are as before.
\<close>

theorem load_error_is_atomic:
  "snd (handle L (ModelLoadError err) s) =
     Inr (s\<lparr>loadingIndicator := (loadingIndicator s)\<lparr>textContent := ''Error loading model''\<rparr>\<rparr>)
   \<and> display (loadingIndicator (state_of (snd (handle L (ModelLoadError err) s))))
       = display (loadingIndicator s)
   \<and> scene (state_of (snd (handle L (ModelLoadError err) s))) = scene s
   \<and> camera (state_of (snd (handle L (ModelLoadError err) s))) = camera s
   \<and> renderer (state_of (snd (handle L (ModelLoadError err) s))) = renderer s
   \<and> model (state_of (snd (handle L (ModelLoadError err) s))) = model s
   \<and> isDragging (state_of (snd (handle L (ModelLoadError err) s))) = isDragging s
   \<and> previousPosition (state_of (snd (handle L (ModelLoadError err) s))) = previousPosition s
   \<and> isAutoRotating (state_of (snd (handle L (ModelLoadError err) s))) = isAutoRotating s"
  by (simp add: onError_def)

section \<open>Pointer input\<close>

text \<open>
  C7. A mouse-move or touch-move event that arrives while the drag flag is false returns at
  once and leaves the whole viewer as it was (the touch list is not even read).
\<close>

theorem move_without_drag_is_noop:
  "\<not> isDragging s \<Longrightarrow>
   handle L (MouseMove e) s = ([], Inr s) \<and> handle L (TouchMove ts) s = ([], Inr s)"
  by (simp add: onMouseMove_def onTouchMove_def)

theorem move_without_drag_is_noop_witness:
  "\<not> isDragging demo_viewer
   \<and> handle demo_three (MouseMove (pointer_at 30 12)) demo_viewer = ([], Inr demo_viewer)
   \<and> handle demo_three (TouchMove []) demo_viewer = ([], Inr demo_viewer)"
  using move_without_drag_is_noop [of demo_viewer demo_three "pointer_at 30 12" "[]"]
  by (simp add: demo_viewer_fields)

text \<open>
  C2 as stated, for every move while the drag flag is set, fails before the load has
  completed: after a press at \<open>(5, 5)\<close> on the freshly constructed page the flag is set
  and the model is undefined, and a move to \<open>(9, 5)\<close> throws a \<^verbatim>\<open>TypeError\<close> with the
  stored position still \<open>(5, 5)\<close>.
\<close>

theorem drag_move_before_load_throws:
  "isDragging (run demo_three [MouseDown (pointer_at 5 5)] demo_start)
   \<and> model (run demo_three [MouseDown (pointer_at 5 5)] demo_start) = None
   \<and> handle demo_three (MouseMove (pointer_at 9 5))
         (run demo_three [MouseDown (pointer_at 5 5)] demo_start)
       = ([], Inl (TypeError, run demo_three [MouseDown (pointer_at 5 5)] demo_start))
   \<and> previousPosition (state_of (snd (handle demo_three (MouseMove (pointer_at 9 5))
         (run demo_three [MouseDown (pointer_at 5 5)] demo_start))))
       = \<lparr>pos_x = Fin 5, pos_y = Fin 5\<rparr>"
  by (simp add: onMouseDown_def onMouseMove_def handleRotation_unloaded demo_start_fields
      pointer_at_def)

text \<open>
  C2, as the code has it. A move to \<open>(cx, cy)\<close> while the drag flag is set and a model is loaded adds
  \<open>0.005 * (cx - px)\<close> to the model's \<open>y\<close> angle and \<open>0.005 * (cy - py)\<close> to its \<open>x\<close>
  angle, where \<open>(px, py)\<close> is the stored previous position, and stores \<open>(cx, cy)\<close> as
  the new previous position; nothing else changes. The sum, the product and the
  difference are the Number operations. A touch-move does the same with its first touch.
\<close>

theorem drag_move_rotates:
  assumes "isDragging s" and "model s = Some m"
  shows "handle L (MouseMove \<lparr>clientX = cx, clientY = cy\<rparr>) s =
           ([], Inr (s\<lparr>model := Some (m\<lparr>rotation := (rotation m)
              \<lparr>rot_y := js_add (rot_y (rotation m))
                          (js_mul (lit (5 / 1000)) (js_sub cx (pos_x (previousPosition s)))),
               rot_x := js_add (rot_x (rotation m))
                          (js_mul (lit (5 / 1000)) (js_sub cy (pos_y (previousPosition s))))\<rparr>\<rparr>),
              previousPosition := \<lparr>pos_x = cx, pos_y = cy\<rparr>\<rparr>))
         \<and> handle L (TouchMove (\<lparr>clientX = cx, clientY = cy\<rparr> # ts)) s =
             handle L (MouseMove \<lparr>clientX = cx, clientY = cy\<rparr>) s"
  using assms
  by (simp add: onMouseMove_def onTouchMove_def handleRotation_loaded js_mul_commute)

theorem drag_move_rotates_witness:
  "isDragging (run demo_three [MouseDown (pointer_at 0 0)] demo_viewer)
   \<and> model (run demo_three [MouseDown (pointer_at 0 0)] demo_viewer)
       = Some (demo_scene\<lparr>nodes := map optimizeChild (nodes demo_scene)\<rparr>)
   \<and> handle demo_three (MouseMove \<lparr>clientX = Fin 30, clientY = Fin 12\<rparr>)
         (run demo_three [MouseDown (pointer_at 0 0)] demo_viewer) =
       ([], Inr (demo_viewer
          \<lparr>isDragging := True,
           model := Some (demo_scene
             \<lparr>rotation := \<lparr>rot_x = Fin (1080863910568919 / 2 ^ 54),
                           rot_y = Fin (5404319552844595 / 2 ^ 55),
                           rot_z = Zero False\<rparr>,
              nodes := map optimizeChild (nodes demo_scene)\<rparr>),
           previousPosition := \<lparr>pos_x = Fin 30, pos_y = Fin 12\<rparr>\<rparr>))"
proof -
  let ?s = "run demo_three [MouseDown (pointer_at 0 0)] demo_viewer"
  have s: "?s = demo_viewer\<lparr>isDragging := True,
      previousPosition := \<lparr>pos_x = Zero False, pos_y = Zero False\<rparr>\<rparr>"
    by (simp add: onMouseDown_def pointer_at_def)
  have d: "isDragging ?s"
    unfolding s by simp
  have m: "model ?s = Some (demo_scene\<lparr>nodes := map optimizeChild (nodes demo_scene)\<rparr>)"
    unfolding s by (simp add: demo_viewer_fields)
  show ?thesis
    using drag_move_rotates [OF d m, of demo_three "Fin 30" "Fin 12" "[]"] d m
    unfolding s by (simp add: demo_scene_def move_30_12)
qed

text \<open>
  A run of moves delivered while dragging: every move adds its own rounded increment,
  measured from the position the move before stored.
\<close>

lemma run_moves:
  "isDragging s \<Longrightarrow> model s = Some m \<Longrightarrow>
   previousPosition s = \<lparr>pos_x = clientX p, pos_y = clientY p\<rparr> \<Longrightarrow>
   run L (map MouseMove ps) s =
     s\<lparr>model := Some (m\<lparr>rotation := (rotation m)
          \<lparr>rot_y := foldl (\<lambda>a (p, q). js_add a (js_mul (js_sub (clientX q) (clientX p)) (lit (5 / 1000))))
                     (rot_y (rotation m)) (zip (p # ps) ps),
           rot_x := foldl (\<lambda>a (p, q). js_add a (js_mul (js_sub (clientY q) (clientY p)) (lit (5 / 1000))))
                     (rot_x (rotation m)) (zip (p # ps) ps)\<rparr>\<rparr>),
       previousPosition := \<lparr>pos_x = clientX (last (p # ps)), pos_y = clientY (last (p # ps))\<rparr>\<rparr>"
proof (induction ps arbitrary: s m p)
  case Nil
  then show ?case by simp
next
  case (Cons q qs)
  let ?m = "m\<lparr>rotation := (rotation m)
      \<lparr>rot_y := js_add (rot_y (rotation m))
                  (js_mul (js_sub (clientX q) (clientX p)) (lit (5 / 1000))),
       rot_x := js_add (rot_x (rotation m))
                  (js_mul (js_sub (clientY q) (clientY p)) (lit (5 / 1000)))\<rparr>\<rparr>"
  let ?s = "s\<lparr>model := Some ?m, previousPosition := \<lparr>pos_x = clientX q, pos_y = clientY q\<rparr>\<rparr>"
  have step: "state_of (snd (handle L (MouseMove q) s)) = ?s"
    using Cons.prems by (simp add: onMouseMove_def handleRotation_loaded)
  have "run L (map MouseMove (q # qs)) s = run L (map MouseMove qs) ?s"
    using step by simp
  also have "\<dots> = ?s\<lparr>model := Some (?m\<lparr>rotation := (rotation ?m)
          \<lparr>rot_y := foldl (\<lambda>a (p, q). js_add a (js_mul (js_sub (clientX q) (clientX p)) (lit (5 / 1000))))
                     (rot_y (rotation ?m)) (zip (q # qs) qs),
           rot_x := foldl (\<lambda>a (p, q). js_add a (js_mul (js_sub (clientY q) (clientY p)) (lit (5 / 1000))))
                     (rot_x (rotation ?m)) (zip (q # qs) qs)\<rparr>\<rparr>),
       previousPosition := \<lparr>pos_x = clientX (last (q # qs)), pos_y = clientY (last (q # qs))\<rparr>\<rparr>"
    using Cons.prems by (intro Cons.IH) simp_all
  finally show ?case by simp
qed

text \<open>
  C10, as the code has it. After a press at \<open>p0\<close> and moves through \<open>p1, ..., pn\<close> with a
  model loaded, the \<open>y\<close> angle is the left-to-right accumulation
  \<open>(...((y + 0.005 * (p1.x - p0.x)) + 0.005 * (p2.x - p1.x)) + ...) + 0.005 * (pn.x - p(n-1).x)\<close>
  of the moves' increments, every sum, product and difference rounded as a Number, and
  the \<open>x\<close> angle likewise from the vertical coordinates; the drag flag is set and the
  stored position is \<open>pn\<close>. For a single move this is \<open>y + 0.005 * (p1.x - p0.x)\<close>.
\<close>

theorem drag_accumulates_rounded_steps:
  assumes "model s = Some m"
  shows "run L (MouseDown p0 # map MouseMove ps) s =
     s\<lparr>isDragging := True,
       model := Some (m\<lparr>rotation := (rotation m)
          \<lparr>rot_y := foldl (\<lambda>a (p, q). js_add a (js_mul (lit (5 / 1000)) (js_sub (clientX q) (clientX p))))
                     (rot_y (rotation m)) (zip (p0 # ps) ps),
           rot_x := foldl (\<lambda>a (p, q). js_add a (js_mul (lit (5 / 1000)) (js_sub (clientY q) (clientY p))))
                     (rot_x (rotation m)) (zip (p0 # ps) ps)\<rparr>\<rparr>),
       previousPosition := \<lparr>pos_x = clientX (last (p0 # ps)), pos_y = clientY (last (p0 # ps))\<rparr>\<rparr>"
proof -
  let ?s = "s\<lparr>isDragging := True, previousPosition := \<lparr>pos_x = clientX p0, pos_y = clientY p0\<rparr>\<rparr>"
  have "run L (MouseDown p0 # map MouseMove ps) s = run L (map MouseMove ps) ?s"
    by (simp add: onMouseDown_def)
  also have "\<dots> = ?s\<lparr>model := Some (m\<lparr>rotation := (rotation m)
          \<lparr>rot_y := foldl (\<lambda>a (p, q). js_add a (js_mul (js_sub (clientX q) (clientX p)) (lit (5 / 1000))))
                     (rot_y (rotation m)) (zip (p0 # ps) ps),
           rot_x := foldl (\<lambda>a (p, q). js_add a (js_mul (js_sub (clientY q) (clientY p)) (lit (5 / 1000))))
                     (rot_x (rotation m)) (zip (p0 # ps) ps)\<rparr>\<rparr>),
       previousPosition := \<lparr>pos_x = clientX (last (p0 # ps)), pos_y = clientY (last (p0 # ps))\<rparr>\<rparr>"
    using assms by (intro run_moves) simp_all
  finally show ?thesis
    by (simp add: js_mul_commute [of "lit (1 / 200)"])
qed

theorem drag_accumulates_rounded_steps_witness:
  "model demo_viewer = Some (demo_scene\<lparr>nodes := map optimizeChild (nodes demo_scene)\<rparr>)
   \<and> run demo_three [MouseDown (pointer_at 0 0), MouseMove (pointer_at 30 12)] demo_viewer =
       demo_viewer
          \<lparr>isDragging := True,
           model := Some (demo_scene
             \<lparr>rotation := \<lparr>rot_x = Fin (1080863910568919 / 2 ^ 54),
                           rot_y = Fin (5404319552844595 / 2 ^ 55),
                           rot_z = Zero False\<rparr>,
              nodes := map optimizeChild (nodes demo_scene)\<rparr>),
           previousPosition := \<lparr>pos_x = Fin 30, pos_y = Fin 12\<rparr>\<rparr>"
proof -
  have m: "model demo_viewer = Some (demo_scene\<lparr>nodes := map optimizeChild (nodes demo_scene)\<rparr>)"
    by (rule demo_viewer_fields)
  have "run demo_three (MouseDown (pointer_at 0 0) # map MouseMove [pointer_at 30 12]) demo_viewer =
       demo_viewer
          \<lparr>isDragging := True,
           model := Some (demo_scene
             \<lparr>rotation := \<lparr>rot_x = Fin (1080863910568919 / 2 ^ 54),
                           rot_y = Fin (5404319552844595 / 2 ^ 55),
                           rot_z = Zero False\<rparr>,
              nodes := map optimizeChild (nodes demo_scene)\<rparr>),
           previousPosition := \<lparr>pos_x = Fin 30, pos_y = Fin 12\<rparr>\<rparr>"
    unfolding drag_accumulates_rounded_steps [OF m]
    by (simp add: pointer_at_def demo_scene_def move_30_12)
  with m show ?thesis
    by simp
qed

text \<open>
  C10 as stated fails on rounding. From the loaded sample page (all angles \<open>0\<close>), a
  press at \<open>x = 0\<close> dragged to \<open>x = 20\<close> and on to \<open>x = 60\<close> leaves the \<open>y\<close> angle at
  \<open>0.30000000000000004\<close>; dragged to \<open>x = 60\<close> in one move it leaves \<open>0.3\<close>, which is
  also \<open>0 + 0.005 * (60 - 0)\<close>.
\<close>

theorem drag_depends_on_intermediate_positions:
  "map_option rotation (model (run demo_three
      [MouseDown (pointer_at 0 0), MouseMove (pointer_at 20 0), MouseMove (pointer_at 60 0)]
      demo_viewer))
     = Some \<lparr>rot_x = Zero False, rot_y = Fin (1351079888211149 / 2 ^ 52), rot_z = Zero False\<rparr>
   \<and> map_option rotation (model (run demo_three
      [MouseDown (pointer_at 0 0), MouseMove (pointer_at 60 0)] demo_viewer))
     = Some \<lparr>rot_x = Zero False, rot_y = Fin (5404319552844595 / 2 ^ 54), rot_z = Zero False\<rparr>
   \<and> js_add (Zero False) (js_mul (lit (5 / 1000)) (js_sub (Fin 60) (Zero False)))
     = Fin (5404319552844595 / 2 ^ 54)
   \<and> Fin (1351079888211149 / 2 ^ 52) \<noteq> Fin (5404319552844595 / 2 ^ 54)"
proof -
  have m: "model demo_viewer = Some (demo_scene\<lparr>nodes := map optimizeChild (nodes demo_scene)\<rparr>)"
    by (rule demo_viewer_fields)
  have a: "run demo_three
      [MouseDown (pointer_at 0 0), MouseMove (pointer_at 20 0), MouseMove (pointer_at 60 0)]
      demo_viewer = run demo_three (map MouseMove [pointer_at 20 0, pointer_at 60 0])
        (demo_viewer\<lparr>isDragging := True,
           previousPosition := \<lparr>pos_x = clientX (pointer_at 0 0), pos_y = clientY (pointer_at 0 0)\<rparr>\<rparr>)"
    by (simp add: onMouseDown_def)
  have b: "run demo_three [MouseDown (pointer_at 0 0), MouseMove (pointer_at 60 0)] demo_viewer
      = run demo_three (map MouseMove [pointer_at 60 0])
        (demo_viewer\<lparr>isDragging := True,
           previousPosition := \<lparr>pos_x = clientX (pointer_at 0 0), pos_y = clientY (pointer_at 0 0)\<rparr>\<rparr>)"
    by (simp add: onMouseDown_def)
  show ?thesis
    unfolding a b
    by (subst run_moves [where m = "demo_scene\<lparr>nodes := map optimizeChild (nodes demo_scene)\<rparr>"
          and p = "pointer_at 0 0"], simp, simp add: m, simp)+
      (simp add: pointer_at_def demo_scene_def drag_0_20 drag_20_60 drag_0_60 drag_0_0
        claimed_0_60)
qed

section \<open>Camera framing, reset and auto-rotation\<close>

text \<open>
  C3. With a model loaded, whose bounding box has size \<open>(sx, sy, sz)\<close> and centre \<open>c\<close>,
  \<^verbatim>\<open>fitModelToContainer\<close> puts the camera at
  \<open>(0, 0.3 * sy, 1.8 * |maxDim / (2 * tan (fovRad / 2))|)\<close>, where \<open>maxDim\<close> is the
  largest of \<open>sx, sy, sz\<close> and \<open>fovRad = fov * (\<pi> / 180)\<close>, points it at \<open>c\<close> and writes
  nothing else. The resize handler runs the same computation after it has resized the
  renderer, and so leaves the camera at that position, looking at \<open>c\<close>.
\<close>

theorem camera_framing:
  assumes "model s = Some m"
  shows "let center = Box3_getCenter L m;
             size = Box3_getSize L m;
             maxDim = Math_max (vec_x size) (vec_y size) (vec_z size);
             fovRad = js_mul (fov (camera s)) (js_div Math_PI (lit 180));
             framed = \<lparr>vec_x = Zero False,
                       vec_y = js_mul (lit (3 / 10)) (vec_y size),
                       vec_z = js_mul (lit (18 / 10))
                         (Math_abs (js_div maxDim
                            (js_mul (lit 2) (Math_tan L (js_div fovRad (lit 2))))))\<rparr>
         in fitModelToContainer L s =
              Inr (s\<lparr>camera := (camera s)\<lparr>position := framed, lookAt := Some center\<rparr>\<rparr>)
            \<and> handle L (WindowResize r) s = ([], fitModelToContainer L (updateRendererSize r s))
            \<and> position (camera (state_of (snd (handle L (WindowResize r) s)))) = framed
            \<and> lookAt (camera (state_of (snd (handle L (WindowResize r) s)))) = Some center"
proof -
  have "model (updateRendererSize r s) = Some m"
    using assms by (simp add: updateRendererSize_def)
  moreover have "fov (camera (updateRendererSize r s)) = fov (camera s)"
    by (simp add: updateRendererSize_def)
  ultimately show ?thesis
    using assms
    by (simp add: Let_def onWindowResize_def fit_loaded js_mul_commute [of "lit _"])
qed

theorem camera_framing_witness:
  "model demo_viewer = Some (demo_scene\<lparr>nodes := map optimizeChild (nodes demo_scene)\<rparr>)
   \<and> fitModelToContainer demo_three demo_viewer =
       Inr (demo_viewer\<lparr>camera := (camera demo_viewer)
              \<lparr>position := \<lparr>vec_x = Zero False,
                             vec_y = Fin (5404319552844595 / 2 ^ 53),
                             vec_z = Fin (3669519813714991 / 2 ^ 48)\<rparr>,
               lookAt := Some \<lparr>vec_x = Zero False, vec_y = Fin 1, vec_z = Zero False\<rparr>\<rparr>\<rparr>)
   \<and> position (camera (state_of (snd (handle demo_three
         (WindowResize \<lparr>width = Fin 300, height = Fin 300\<rparr>) demo_viewer))))
       = \<lparr>vec_x = Zero False,
          vec_y = Fin (5404319552844595 / 2 ^ 53),
          vec_z = Fin (3669519813714991 / 2 ^ 48)\<rparr>"
proof -
  have m: "model demo_viewer = Some (demo_scene\<lparr>nodes := map optimizeChild (nodes demo_scene)\<rparr>)"
    by (rule demo_viewer_fields)
  have three: "Box3_getSize demo_three = (\<lambda>m. \<lparr>vec_x = Fin 2, vec_y = Fin 2, vec_z = Fin 6\<rparr>)"
    "Box3_getCenter demo_three = (\<lambda>m. \<lparr>vec_x = Zero False, vec_y = Fin 1, vec_z = Zero False\<rparr>)"
    by (simp_all add: demo_three_def)
  show ?thesis
    using camera_framing [OF m, of demo_three "\<lparr>width = Fin 300, height = Fin 300\<rparr>"] m
    by (simp add: Let_def three demo_viewer_fields demo_framing onWindowResize_def)
qed

text \<open>
  C4. A click on the reset button with a model loaded, whose bounding box at the click has
  size \<open>(sx, sy, sz)\<close> and centre \<open>c\<close>, puts the camera at
  \<open>(0, 0.3 * sy, 1.8 * |maxDim / (2 * tan (fovRad / 2))|)\<close> looking at \<open>c\<close>, and then sets
  the three angles of the model to \<open>0\<close>. The drag flag, the previous position and the
  auto-rotate flag, like every other field, keep their values.
\<close>

theorem reset_view_zeroes_rotation:
  assumes "model s = Some m"
  shows "let center = Box3_getCenter L m;
             size = Box3_getSize L m;
             maxDim = Math_max (vec_x size) (vec_y size) (vec_z size);
             fovRad = js_mul (fov (camera s)) (js_div Math_PI (lit 180));
             framed = \<lparr>vec_x = Zero False,
                       vec_y = js_mul (lit (3 / 10)) (vec_y size),
                       vec_z = js_mul (lit (18 / 10))
                         (Math_abs (js_div maxDim
                            (js_mul (lit 2) (Math_tan L (js_div fovRad (lit 2))))))\<rparr>
         in handle L ResetViewClick s =
              ([], Inr (s\<lparr>camera := (camera s)\<lparr>position := framed, lookAt := Some center\<rparr>,
                         model := Some (m\<lparr>rotation :=
                           \<lparr>rot_x = Zero False, rot_y = Zero False, rot_z = Zero False\<rparr>\<rparr>)\<rparr>))
            \<and> isDragging (state_of (snd (handle L ResetViewClick s))) = isDragging s
            \<and> previousPosition (state_of (snd (handle L ResetViewClick s))) = previousPosition s
            \<and> isAutoRotating (state_of (snd (handle L ResetViewClick s))) = isAutoRotating s"
  using assms
  by (simp add: Let_def resetViewClick_def fit_loaded lit_zero js_mul_commute [of "lit _"])

text \<open>
  On the sample page with the turning box: the load leaves the camera at
  \<open>(0, 0.6, 13.036753236814715)\<close> looking at \<open>(0, 1, 0)\<close>; after a drag to \<open>(30, 12)\<close> the
  reset click moves it to \<open>(0, 0.8999999999999999, 10.863961030678928)\<close> looking at
  \<open>(0, 1.5, 0)\<close>, the frame of the turned model, and the angles are \<open>0\<close>.
\<close>

theorem reset_view_zeroes_rotation_witness:
  "state_of (snd (handle demo_turning (ModelLoaded demo_scene) demo_start)) = demo_viewer
   \<and> position (camera demo_viewer)
       = \<lparr>vec_x = Zero False,
          vec_y = Fin (5404319552844595 / 2 ^ 53),
          vec_z = Fin (3669519813714991 / 2 ^ 48)\<rparr>
   \<and> model (run demo_turning [MouseDown (pointer_at 0 0), MouseMove (pointer_at 30 12)] demo_viewer)
     = Some (demo_scene
         \<lparr>rotation := \<lparr>rot_x = Fin (1080863910568919 / 2 ^ 54),
                       rot_y = Fin (5404319552844595 / 2 ^ 55),
                       rot_z = Zero False\<rparr>,
          nodes := map optimizeChild (nodes demo_scene)\<rparr>)
   \<and> run demo_turning
         [MouseDown (pointer_at 0 0), MouseMove (pointer_at 30 12), ResetViewClick] demo_viewer
       = demo_viewer
           \<lparr>isDragging := True,
            previousPosition := \<lparr>pos_x = Fin 30, pos_y = Fin 12\<rparr>,
            camera := (camera demo_viewer)
              \<lparr>position := \<lparr>vec_x = Zero False,
                             vec_y = Fin (2026619832316723 / 2 ^ 51),
                             vec_z = Fin (6115866356191651 / 2 ^ 49)\<rparr>,
               lookAt := Some \<lparr>vec_x = Zero False, vec_y = Fin (3 / 2), vec_z = Zero False\<rparr>\<rparr>,
            model := Some (demo_scene
              \<lparr>rotation := \<lparr>rot_x = Zero False, rot_y = Zero False, rot_z = Zero False\<rparr>,
               nodes := map optimizeChild (nodes demo_scene)\<rparr>)\<rparr>"
proof -
  let ?s = "run demo_turning [MouseDown (pointer_at 0 0), MouseMove (pointer_at 30 12)] demo_viewer"
  let ?m = "demo_scene
         \<lparr>rotation := \<lparr>rot_x = Fin (1080863910568919 / 2 ^ 54),
                       rot_y = Fin (5404319552844595 / 2 ^ 55),
                       rot_z = Zero False\<rparr>,
          nodes := map optimizeChild (nodes demo_scene)\<rparr>"
  have load: "state_of (snd (handle demo_turning (ModelLoaded demo_scene) demo_start)) = demo_viewer"
    by (simp add: demo_viewer_def onLoad_result fit_loaded demo_turning_def demo_three_def
        demo_scene_def)
  have three: "Box3_getSize demo_three = (\<lambda>m. \<lparr>vec_x = Fin 2, vec_y = Fin 2, vec_z = Fin 6\<rparr>)"
    by (simp add: demo_three_def)
  have cam: "position (camera demo_viewer)
       = \<lparr>vec_x = Zero False,
          vec_y = Fin (5404319552844595 / 2 ^ 53),
          vec_z = Fin (3669519813714991 / 2 ^ 48)\<rparr>"
    by (simp add: demo_viewer_def demo_start_def onLoad_result fit_loaded constructor_fields
        three demo_framing js_mul_commute [of _ "lit _"])
  have s: "?s = demo_viewer
          \<lparr>isDragging := True,
           model := Some ?m,
           previousPosition := \<lparr>pos_x = Fin 30, pos_y = Fin 12\<rparr>\<rparr>"
    using run_moves [of "demo_viewer\<lparr>isDragging := True,
        previousPosition := \<lparr>pos_x = clientX (pointer_at 0 0), pos_y = clientY (pointer_at 0 0)\<rparr>\<rparr>"
        "demo_scene\<lparr>nodes := map optimizeChild (nodes demo_scene)\<rparr>" "pointer_at 0 0"
        demo_turning "[pointer_at 30 12]"]
    by (simp add: onMouseDown_def demo_viewer_fields pointer_at_def demo_scene_def move_30_12
        js_mul_commute [of _ "lit (1 / 200)"])
  have m: "model ?s = Some ?m"
    unfolding s by simp
  have r: "run demo_turning
      [MouseDown (pointer_at 0 0), MouseMove (pointer_at 30 12), ResetViewClick] demo_viewer
      = state_of (snd (handle demo_turning ResetViewClick ?s))"
    by simp
  have turned:
    "Box3_getSize demo_turning =
       (\<lambda>m. if rotation m = \<lparr>rot_x = Zero False, rot_y = Zero False, rot_z = Zero False\<rparr>
            then \<lparr>vec_x = Fin 2, vec_y = Fin 2, vec_z = Fin 6\<rparr>
            else \<lparr>vec_x = Fin 5, vec_y = Fin 3, vec_z = Fin 5\<rparr>)"
    "Box3_getCenter demo_turning =
       (\<lambda>m. if rotation m = \<lparr>rot_x = Zero False, rot_y = Zero False, rot_z = Zero False\<rparr>
            then \<lparr>vec_x = Zero False, vec_y = Fin 1, vec_z = Zero False\<rparr>
            else \<lparr>vec_x = Zero False, vec_y = Fin (3 / 2), vec_z = Zero False\<rparr>)"
    "Math_tan demo_turning = Math_tan demo_three"
    by (simp_all add: demo_turning_def)
  have reset: "run demo_turning
      [MouseDown (pointer_at 0 0), MouseMove (pointer_at 30 12), ResetViewClick] demo_viewer
       = demo_viewer
           \<lparr>isDragging := True,
            previousPosition := \<lparr>pos_x = Fin 30, pos_y = Fin 12\<rparr>,
            camera := (camera demo_viewer)
              \<lparr>position := \<lparr>vec_x = Zero False,
                             vec_y = Fin (2026619832316723 / 2 ^ 51),
                             vec_z = Fin (6115866356191651 / 2 ^ 49)\<rparr>,
               lookAt := Some \<lparr>vec_x = Zero False, vec_y = Fin (3 / 2), vec_z = Zero False\<rparr>\<rparr>,
            model := Some (demo_scene
              \<lparr>rotation := \<lparr>rot_x = Zero False, rot_y = Zero False, rot_z = Zero False\<rparr>,
               nodes := map optimizeChild (nodes demo_scene)\<rparr>)\<rparr>"
    unfolding r using reset_view_zeroes_rotation [OF m, of demo_turning]
    unfolding s
    by (simp add: Let_def turned demo_viewer_fields demo_turned_framing demo_scene_def)
  from load cam m reset show ?thesis
    by simp
qed

text \<open>
  C5 as stated, for every frame with the flag set, fails before the load has completed:
  after a toggle click on the freshly constructed page the flag is set and the model is
  undefined, and the next frame throws a \<^verbatim>\<open>TypeError\<close> and leaves the viewer as it was.
\<close>

theorem frame_before_load_throws:
  "isAutoRotating (run demo_three [ToggleRotationClick] demo_start)
   \<and> model (run demo_three [ToggleRotationClick] demo_start) = None
   \<and> handle demo_three AnimationFrame (run demo_three [ToggleRotationClick] demo_start)
       = ([], Inl (TypeError, run demo_three [ToggleRotationClick] demo_start))"
  by (simp add: toggleRotationClick_def animate_def demo_start_fields)

text \<open>
  C5, as the code has it. A click on the toggle button negates the auto-rotate flag and
  writes nothing else. An animation frame with the flag set and a model loaded adds \<open>0.005\<close> to the model's
  \<open>y\<close> angle (a Number addition) and writes nothing else; a frame with the flag clear
  leaves the viewer as it was.
\<close>

theorem toggle_and_frame:
  "handle L ToggleRotationClick s = ([], Inr (s\<lparr>isAutoRotating := \<not> isAutoRotating s\<rparr>))
   \<and> (isAutoRotating s \<longrightarrow> model s = Some m \<longrightarrow>
        handle L AnimationFrame s =
          ([], Inr (s\<lparr>model := Some (m\<lparr>rotation := (rotation m)
                 \<lparr>rot_y := js_add (rot_y (rotation m)) (lit (5 / 1000))\<rparr>\<rparr>)\<rparr>)))
   \<and> (\<not> isAutoRotating s \<longrightarrow> handle L AnimationFrame s = ([], Inr s))"
  by (simp add: toggleRotationClick_def animate_def)

theorem toggle_and_frame_witness:
  "\<not> isAutoRotating demo_viewer
   \<and> handle demo_three AnimationFrame demo_viewer = ([], Inr demo_viewer)
   \<and> handle demo_three ToggleRotationClick demo_viewer
       = ([], Inr (demo_viewer\<lparr>isAutoRotating := True\<rparr>))
   \<and> isAutoRotating (demo_viewer\<lparr>isAutoRotating := True\<rparr>)
   \<and> model (demo_viewer\<lparr>isAutoRotating := True\<rparr>)
       = Some (demo_scene\<lparr>nodes := map optimizeChild (nodes demo_scene)\<rparr>)
   \<and> handle demo_three AnimationFrame (demo_viewer\<lparr>isAutoRotating := True\<rparr>) =
       ([], Inr (demo_viewer
          \<lparr>isAutoRotating := True,
           model := Some (demo_scene
             \<lparr>rotation := \<lparr>rot_x = Zero False,
                           rot_y = Fin (5764607523034235 / 2 ^ 60),
                           rot_z = Zero False\<rparr>,
              nodes := map optimizeChild (nodes demo_scene)\<rparr>)\<rparr>))"
  using toggle_and_frame [of demo_three demo_viewer]
    toggle_and_frame [of demo_three "demo_viewer\<lparr>isAutoRotating := True\<rparr>"
      "demo_scene\<lparr>nodes := map optimizeChild (nodes demo_scene)\<rparr>"]
  by (simp add: demo_viewer_fields demo_scene_def frame_step)

section \<open>Handlers before the model has loaded\<close>

text \<open>A press and a toggle click delivered before the load has completed.\<close>

lemma demo_pressed_fields:
  "model (run demo_three [MouseDown (pointer_at 5 5), ToggleRotationClick] demo_start) = None"
  "isDragging (run demo_three [MouseDown (pointer_at 5 5), ToggleRotationClick] demo_start)"
  "isAutoRotating (run demo_three [MouseDown (pointer_at 5 5), ToggleRotationClick] demo_start)"
  by (simp_all add: onMouseDown_def toggleRotationClick_def demo_start_fields)

text \<open>
  C9. The reset handler, the drag rotation, the auto-rotating frame and the resize handler
  read the model without a guard. While the model is undefined, as it is from the
  constructor until the load completes and still after a failed load, each of them throws
  a \<^verbatim>\<open>TypeError\<close> (the resize handler after it has resized the renderer); once the
  completion callback has assigned the model, each of them returns.
\<close>

theorem model_dereferenced_unguarded:
  "(model s = None \<longrightarrow>
      snd (handle L ResetViewClick s) = Inl (TypeError, s)
      \<and> handleRotation cx cy s = Inl (TypeError, s)
      \<and> (isDragging s \<longrightarrow> snd (handle L (MouseMove e) s) = Inl (TypeError, s))
      \<and> (isAutoRotating s \<longrightarrow> snd (handle L AnimationFrame s) = Inl (TypeError, s))
      \<and> snd (handle L (WindowResize r) s) = Inl (TypeError, updateRendererSize r s))
   \<and> (model s \<noteq> None \<longrightarrow>
      (\<exists>s'. snd (handle L ResetViewClick s) = Inr s')
      \<and> (\<exists>s'. handleRotation cx cy s = Inr s')
      \<and> (\<exists>s'. snd (handle L (MouseMove e) s) = Inr s')
      \<and> (\<exists>s'. snd (handle L AnimationFrame s) = Inr s')
      \<and> (\<exists>s'. snd (handle L (WindowResize r) s) = Inr s'))
   \<and> model (constructor r ind) = None
   \<and> (model s = None \<longrightarrow> model (state_of (snd (handle L (ModelLoadError err) s))) = None)
   \<and> model (state_of (snd (handle L (ModelLoaded g) s))) \<noteq> None"
  by (auto simp: resetViewClick_def fit_unloaded fit_loaded handleRotation_unloaded
      handleRotation_loaded onMouseMove_def animate_def onWindowResize_def
      updateRendererSize_def constructor_fields onLoad_fields onError_def)

theorem model_dereferenced_unguarded_witness:
  "model (run demo_three [MouseDown (pointer_at 5 5), ToggleRotationClick] demo_start) = None
   \<and> isDragging (run demo_three [MouseDown (pointer_at 5 5), ToggleRotationClick] demo_start)
   \<and> isAutoRotating (run demo_three [MouseDown (pointer_at 5 5), ToggleRotationClick] demo_start)
   \<and> (\<exists>s'. snd (handle demo_three (MouseMove (pointer_at 9 5))
                (run demo_three [MouseDown (pointer_at 5 5), ToggleRotationClick] demo_start))
           = Inl (TypeError, s'))
   \<and> (\<exists>s'. snd (handle demo_three AnimationFrame
                (run demo_three [MouseDown (pointer_at 5 5), ToggleRotationClick] demo_start))
           = Inl (TypeError, s'))
   \<and> (\<exists>s'. snd (handle demo_three ResetViewClick
                (run demo_three [MouseDown (pointer_at 5 5), ToggleRotationClick] demo_start))
           = Inl (TypeError, s'))
   \<and> (\<exists>s'. snd (handle demo_three (WindowResize \<lparr>width = Fin 300, height = Fin 300\<rparr>)
                (run demo_three [MouseDown (pointer_at 5 5), ToggleRotationClick] demo_start))
           = Inl (TypeError, s'))
   \<and> model demo_viewer \<noteq> None
   \<and> (\<exists>s'. snd (handle demo_three ResetViewClick demo_viewer) = Inr s')
   \<and> (\<exists>s'. snd (handle demo_three AnimationFrame demo_viewer) = Inr s')
   \<and> (\<exists>s'. snd (handle demo_three (WindowResize \<lparr>width = Fin 300, height = Fin 300\<rparr>)
                demo_viewer) = Inr s')"
proof -
  let ?s = "run demo_three [MouseDown (pointer_at 5 5), ToggleRotationClick] demo_start"
  have loaded: "model demo_viewer \<noteq> None"
    by (simp add: demo_viewer_fields)
  from model_dereferenced_unguarded [of ?s demo_three "Fin 9" "Fin 5" "pointer_at 9 5"
      "\<lparr>width = Fin 300, height = Fin 300\<rparr>" _ "''404''" demo_scene]
    model_dereferenced_unguarded [of demo_viewer demo_three "Fin 9" "Fin 5" "pointer_at 9 5"
      "\<lparr>width = Fin 300, height = Fin 300\<rparr>" _ "''404''" demo_scene]
    demo_pressed_fields loaded
  show ?thesis
    by blast
qed

section \<open>What the handlers write\<close>

text \<open>
  C6 as stated, that every handler writes only the drag flag, the pointer position, the
  angles and the auto-rotate flag, fails at the resize handler: on the sample page a
  resize to 300 by 300 changes the renderer's size from \<open>(600, 300)\<close> and the camera's
  aspect from \<open>2\<close> to \<open>1\<close>.
\<close>

theorem resize_writes_renderer_and_camera:
  "renderer demo_viewer = \<lparr>canvas_width = Fin 600, canvas_height = Fin 300\<rparr>
   \<and> renderer (state_of (snd (handle demo_three
         (WindowResize \<lparr>width = Fin 300, height = Fin 300\<rparr>) demo_viewer)))
       = \<lparr>canvas_width = Fin 300, canvas_height = Fin 300\<rparr>
   \<and> aspect (camera demo_viewer) = Fin 2
   \<and> aspect (camera (state_of (snd (handle demo_three
         (WindowResize \<lparr>width = Fin 300, height = Fin 300\<rparr>) demo_viewer)))) = Fin 1
   \<and> other_components (state_of (snd (handle demo_three
         (WindowResize \<lparr>width = Fin 300, height = Fin 300\<rparr>) demo_viewer)))
       \<noteq> other_components demo_viewer"
  by (simp add: onWindowResize_def fit_camera fit_keeps updateRendererSize_def
      demo_viewer_fields demo_aspect other_components_def)

text \<open>
  C6, as the code has it. The pointer, touch, toggle and frame handlers write at most the
  drag flag, the previous position, the model's \<open>x\<close> and \<open>y\<close> angles and the auto-rotate
  flag. The reset handler writes the model's angles and the camera's position and
  orientation only; the resize handler writes the renderer's size and the camera's aspect,
  position and orientation only. This holds whether the handler returns or throws.
\<close>

theorem handlers_write_interaction_state_and_camera:
  "let st = (\<lambda>ev. state_of (snd (handle L ev s)))
   in other_components (st (MouseDown e)) = other_components s
    \<and> other_components (st (MouseMove e)) = other_components s
    \<and> other_components (st MouseUp) = other_components s
    \<and> other_components (st (TouchStart ts)) = other_components s
    \<and> other_components (st (TouchMove ts)) = other_components s
    \<and> other_components (st TouchEnd) = other_components s
    \<and> other_components (st ToggleRotationClick) = other_components s
    \<and> other_components (st AnimationFrame) = other_components s
    \<and> fixed_components (st ResetViewClick) = fixed_components s
    \<and> renderer (st ResetViewClick) = renderer s
    \<and> aspect (camera (st ResetViewClick)) = aspect (camera s)
    \<and> isDragging (st ResetViewClick) = isDragging s
    \<and> previousPosition (st ResetViewClick) = previousPosition s
    \<and> isAutoRotating (st ResetViewClick) = isAutoRotating s
    \<and> fixed_components (st (WindowResize r)) = fixed_components s
    \<and> model (st (WindowResize r)) = model s
    \<and> isDragging (st (WindowResize r)) = isDragging s
    \<and> previousPosition (st (WindowResize r)) = previousPosition s
    \<and> isAutoRotating (st (WindowResize r)) = isAutoRotating s"
proof -
  have move: "other_components (state_of (handleRotation cx cy s)) = other_components s" for cx cy
    by (cases "model s")
      (simp_all add: handleRotation_unloaded handleRotation_loaded other_components_def)
  have fit: "fixed_components (state_of (fitModelToContainer L t)) = fixed_components t" for t
    by (simp add: fixed_components_def fit_keeps fit_camera)
  have reset: "fixed_components (state_of (resetViewClick L s)) = fixed_components s
      \<and> renderer (state_of (resetViewClick L s)) = renderer s
      \<and> aspect (camera (state_of (resetViewClick L s))) = aspect (camera s)
      \<and> isDragging (state_of (resetViewClick L s)) = isDragging s
      \<and> previousPosition (state_of (resetViewClick L s)) = previousPosition s
      \<and> isAutoRotating (state_of (resetViewClick L s)) = isAutoRotating s"
    by (cases "model s")
      (simp_all add: resetViewClick_def fit_unloaded fit_loaded fixed_components_def)
  have resize: "fixed_components (state_of (onWindowResize L r s)) = fixed_components s
      \<and> model (state_of (onWindowResize L r s)) = model s
      \<and> isDragging (state_of (onWindowResize L r s)) = isDragging s
      \<and> previousPosition (state_of (onWindowResize L r s)) = previousPosition s
      \<and> isAutoRotating (state_of (onWindowResize L r s)) = isAutoRotating s"
    unfolding onWindowResize_def
    by (simp add: fit fit_keeps) (simp add: updateRendererSize_def fixed_components_def)
  have touch_start: "other_components (state_of (onTouchStart ts s)) = other_components s"
    by (cases ts) (simp_all add: onTouchStart_def Let_def other_components_def)
  have touch_move: "other_components (state_of (onTouchMove ts s)) = other_components s"
    by (cases ts) (simp_all add: onTouchMove_def move)
  have frame: "other_components (state_of (animate s)) = other_components s"
    by (cases "model s") (simp_all add: animate_def other_components_def)
  show ?thesis
    unfolding Let_def
    by (simp add: reset resize touch_start touch_move frame move onMouseMove_def)
      (simp add: onMouseDown_def onMouseUp_def onTouchEnd_def toggleRotationClick_def
        other_components_def)
qed

end
